theory Spec2Isabelle
  imports Main "HOL-Library.AList"
begin

section \<open>The host editor, as far as the node needs it\<close>

text \<open>
  Modelled from the spec: node identity. The host document model (package \<open>lexical\<close>,
  not among the sources) assigns every node an opaque key; the spec says the key is
  "assigned by the host document model, never chosen by this code" and that a created node
  gets a "fresh identity". The host is a state holding the supply of unused keys
  (\<open>keyCounter\<close>) and whatever document \<open>'d\<close> it manages.
\<close>

type_synonym NodeKey = nat

record 'd HostState =
  keyCounter :: nat
  document :: 'd

text \<open>
  Modelled from the spec: the key step of the base constructor. A key handed to the
  constructor is kept (this is what \<open>clone\<close> does); with no key the host hands out the
  next unused one.
\<close>

definition setNodeKey :: "NodeKey option \<Rightarrow> 'd HostState \<Rightarrow> NodeKey \<times> 'd HostState" where
  "setNodeKey key h =
     (case key of
        Some k \<Rightarrow> (k, h)
      | None \<Rightarrow> (keyCounter h, h\<lparr>keyCounter := keyCounter h + 1\<rparr>))"

section \<open>The base class \<open>DecoratorBlockNode\<close>\<close>

text \<open>
  Modelled from the spec: \<open>DecoratorBlockNode\<close> and \<open>SerializedDecoratorBlockNode\<close> of
  \<open>@lexical/react/LexicalDecoratorBlockNode\<close>, which is not among the sources. The spec
  gives the base class the attributes \<open>format: alignment-enum-or-null\<close> and \<open>key\<close>, a
  "set format" capability, and \<open>format\<close> as the base field of the serialized form.
  The alignment enumeration \<open>ElementFormatType\<close> is a type parameter \<open>'f\<close>; \<open>None\<close> is
  the absent (null) format. The fields \<open>__format\<close>, \<open>__key\<close> and \<open>__url\<close> of the source
  are \<open>node_format\<close>, \<open>node_key\<close> and \<open>node_url\<close>.
\<close>

record 'f DecoratorBlockNode =
  node_format :: "'f option"
  node_key :: NodeKey

record 'f SerializedDecoratorBlockNode =
  format :: "'f option"

definition DecoratorBlockNode_exportJSON ::
    "('f, 'z) DecoratorBlockNode_scheme \<Rightarrow> 'f SerializedDecoratorBlockNode" where
  "DecoratorBlockNode_exportJSON n = \<lparr>format = node_format n\<rparr>"

definition setFormat ::
    "'f option \<Rightarrow> ('f, 'z) DecoratorBlockNode_scheme \<Rightarrow> ('f, 'z) DecoratorBlockNode_scheme" where
  "setFormat f n = n\<lparr>node_format := f\<rparr>"

section \<open>\<open>OEmbedNode\<close>\<close>

text \<open>
  \<open>class OEmbedNode extends DecoratorBlockNode { __url: string; ... }\<close> and
  \<open>SerializedOEmbedNode = Spread<{url: string; type: 'oembed'; version: 1},
  SerializedDecoratorBlockNode>\<close>. The literal types \<open>'oembed'\<close> and \<open>1\<close> exist only for
  the type checker; a persisted object carries a string and a number there.
\<close>

record 'f OEmbedNode = "'f DecoratorBlockNode" +
  node_url :: string

record 'f SerializedOEmbedNode = "'f SerializedDecoratorBlockNode" +
  type :: string
  url :: string
  version :: int

definition getType :: string where
  "getType = ''oembed''"

text \<open>\<open>constructor(url, format?, key?) { super(format, key); this.__url = url; }\<close>\<close>

definition OEmbedNode_new ::
    "string \<Rightarrow> 'f option \<Rightarrow> NodeKey option \<Rightarrow> 'd HostState \<Rightarrow> 'f OEmbedNode \<times> 'd HostState" where
  "OEmbedNode_new u fmt key h =
     (let (k, h') = setNodeKey key h
      in (\<lparr>node_format = fmt, node_key = k, node_url = u\<rparr>, h'))"

definition createOEmbedNode :: "string \<Rightarrow> 'd HostState \<Rightarrow> 'f OEmbedNode \<times> 'd HostState" where
  "createOEmbedNode u h = OEmbedNode_new u None None h"

definition clone :: "'f OEmbedNode \<Rightarrow> 'd HostState \<Rightarrow> 'f OEmbedNode \<times> 'd HostState" where
  "clone n h = OEmbedNode_new (node_url n) (node_format n) (Some (node_key n)) h"

definition getUrl :: "'f OEmbedNode \<Rightarrow> string" where
  "getUrl n = node_url n"

text \<open>
  \<open>exportJSON() { return {...super.exportJSON(), type: 'oembed', url: this.getUrl(),
  version: 1}; }\<close>: the base object, extended by the three fields of the literal.
\<close>

definition exportJSON :: "'f OEmbedNode \<Rightarrow> 'f SerializedOEmbedNode" where
  "exportJSON n =
     SerializedDecoratorBlockNode.extend (DecoratorBlockNode_exportJSON n)
       (SerializedOEmbedNode.fields ''oembed'' (getUrl n) 1)"

text \<open>
  \<open>importJSON(serializedNode) { const node = $createOEmbedNode(serializedNode.url);
  node.setFormat(serializedNode.format); return node; }\<close>
\<close>

definition importJSON ::
    "'f SerializedOEmbedNode \<Rightarrow> 'd HostState \<Rightarrow> 'f OEmbedNode \<times> 'd HostState" where
  "importJSON serializedNode h =
     (let (n, h') = createOEmbedNode (url serializedNode) h
      in (setFormat (format serializedNode) n, h'))"

text \<open>\<open>getTextContent() { return `https://twitter.com/i/web/status/${this.__url}`; }\<close>\<close>

definition getTextContent :: "'f OEmbedNode \<Rightarrow> string" where
  "getTextContent n = ''https://twitter.com/i/web/status/'' @ node_url n"

section \<open>The DOM, as far as the node uses it\<close>

text \<open>
  An element is its lower-case tag name and its attributes in document order.
  \<open>setAttribute\<close> replaces the value of an attribute that is present and appends one that
  is not; \<open>getAttribute\<close> returns \<open>null\<close> (\<open>None\<close>) for an attribute that is not present.
\<close>

record HTMLElement =
  localName :: string
  attributes :: "(string \<times> string) list"

definition createElement :: "string \<Rightarrow> HTMLElement" where
  "createElement tag = \<lparr>localName = tag, attributes = []\<rparr>"

definition setAttribute :: "string \<Rightarrow> string \<Rightarrow> HTMLElement \<Rightarrow> HTMLElement" where
  "setAttribute name v el = el\<lparr>attributes := AList.update name v (attributes el)\<rparr>"

definition hasAttribute :: "HTMLElement \<Rightarrow> string \<Rightarrow> bool" where
  "hasAttribute el name = (map_of (attributes el) name \<noteq> None)"

definition getAttribute :: "HTMLElement \<Rightarrow> string \<Rightarrow> string option" where
  "getAttribute el name = map_of (attributes el) name"

record 'f DOMConversionOutput =
  node :: "'f OEmbedNode"

record DOMExportOutput =
  element :: HTMLElement

record ('f, 'd) DOMConversion =
  conversion :: "HTMLElement \<Rightarrow> 'd HostState \<Rightarrow> 'f DOMConversionOutput option \<times> 'd HostState"
  priority :: nat

text \<open>
  \<open>function convertOEmbedElement(domNode) { const url = domNode.getAttribute(
  'data-lexical-oembed-url'); if (url) { const node = $createOEmbedNode(url); return {node}; }
  return null; }\<close>. A string is truthy when it is not \<open>null\<close> and not empty.
\<close>

definition convertOEmbedElement ::
    "HTMLElement \<Rightarrow> 'd HostState \<Rightarrow> 'f DOMConversionOutput option \<times> 'd HostState" where
  "convertOEmbedElement domNode h =
     (case getAttribute domNode ''data-lexical-oembed-url'' of
        None \<Rightarrow> (None, h)
      | Some u \<Rightarrow>
          if u \<noteq> [] then
            (let (n, h') = createOEmbedNode u h in (Some \<lparr>node = n\<rparr>, h'))
          else (None, h))"

text \<open>
  \<open>static importDOM() { return { div: (domNode) => { if (!domNode.hasAttribute(
  'data-lexical-oembed-url')) { return null; } return {conversion: convertOEmbedElement,
  priority: 2}; } }; }\<close>: a map from tag names to handlers, with the one entry \<open>div\<close>.
\<close>

definition importDOM_div :: "HTMLElement \<Rightarrow> ('f, 'd) DOMConversion option" where
  "importDOM_div domNode =
     (if \<not> hasAttribute domNode ''data-lexical-oembed-url'' then None
      else Some \<lparr>conversion = convertOEmbedElement, priority = 2\<rparr>)"

definition importDOM :: "string \<rightharpoonup> (HTMLElement \<Rightarrow> ('f, 'd) DOMConversion option)" where
  "importDOM = [''div'' \<mapsto> importDOM_div]"

text \<open>
  Modelled from the spec: \<open>importFromMarkup\<close>, the host's use of the conversion map, which
  is not among the sources. The spec: it "recognizes a container element carrying a
  specific marker attribute holding the url; returns a node built from that url, or signals
  not recognized (null) otherwise". The host looks the element's tag up in \<open>importDOM\<close>,
  asks the handler for a conversion and applies the conversion to the element.
\<close>

definition importFromMarkup ::
    "HTMLElement \<Rightarrow> 'd HostState \<Rightarrow> 'f DOMConversionOutput option \<times> 'd HostState" where
  "importFromMarkup el h =
     (case importDOM (localName el) of
        None \<Rightarrow> (None, h)
      | Some handler \<Rightarrow>
          (case handler el of
             None \<Rightarrow> (None, h)
           | Some c \<Rightarrow> conversion c el h))"

text \<open>
  \<open>exportDOM() { const element = document.createElement('div'); element.setAttribute(
  'data-lexical-oembed-url', this.__url); return {element}; }\<close>
\<close>

definition exportDOM :: "'f OEmbedNode \<Rightarrow> DOMExportOutput" where
  "exportDOM n =
     (let el = createElement ''div'';
          el = setAttribute ''data-lexical-oembed-url'' (node_url n) el
      in \<lparr>element = el\<rparr>)"

section \<open>The render dispatch of \<open>OEmbedComponent\<close>\<close>

text \<open>
  The fetched payload is whatever \<open>res.json()\<close> returned, cast to \<open>OEmbedData\<close> without a
  check: any JSON value. Numbers are integers here; only whether one is zero is looked at.
  An object is the list of its members, read by key.
\<close>

datatype json =
    JNull
  | JBool bool
  | JNum int
  | JStr string
  | JArr "json list"
  | JObj "(string \<times> json) list"

text \<open>JavaScript's truthiness of a JSON value (\<open>!oembedData\<close> is its negation).\<close>

fun truthy :: "json \<Rightarrow> bool" where
  "truthy JNull = False"
| "truthy (JBool b) = b"
| "truthy (JNum i) = (i \<noteq> 0)"
| "truthy (JStr s) = (s \<noteq> [])"
| "truthy (JArr xs) = True"
| "truthy (JObj kvs) = True"

text \<open>
  Reading one of the members \<open>type\<close>, \<open>url\<close>, \<open>width\<close>, \<open>height\<close>, \<open>html\<close>, \<open>title\<close>:
  \<open>None\<close> is \<open>undefined\<close>, which is what a value that is not an object gives for these
  names. (\<open>null\<close> would throw; the dispatch reads members of truthy values only.)
\<close>

fun member_of :: "json \<Rightarrow> string \<Rightarrow> json option" where
  "member_of (JObj kvs) k = map_of kvs k"
| "member_of v k = None"

text \<open>What the dispatch returns: the loading component or one of the four views.\<close>

datatype 'l rendered =
    LoadingComponent 'l
  | Img "json option" "json option" "json option"
  | VideoElement "json option"
  | Anchor string "json option"
  | RichDiv "json option"

definition renderPhoto :: "json \<Rightarrow> 'l rendered" where
  "renderPhoto d = Img (member_of d ''url'') (member_of d ''width'') (member_of d ''height'')"

definition renderVideo :: "json \<Rightarrow> 'l rendered" where
  "renderVideo d = VideoElement (member_of d ''html'')"

definition renderLink :: "json \<Rightarrow> string \<Rightarrow> 'l rendered" where
  "renderLink d u = Anchor u (member_of d ''title'')"

definition renderRich :: "json \<Rightarrow> 'l rendered" where
  "renderRich d = RichDiv (member_of d ''html'')"

text \<open>
  \<open>if (!url || isLoading || !oembedData) return loadingComponent;
  switch (oembedData.type) { case 'photo': ... case 'video': ... case 'link': ...
  case 'rich': ... default: return loadingComponent; }\<close>. The prop \<open>url?: string\<close> and
  the state \<open>oembedData\<close> may be \<open>undefined\<close> (\<open>None\<close>).
\<close>

definition renderEmbed ::
    "'l \<Rightarrow> string option \<Rightarrow> bool \<Rightarrow> json option \<Rightarrow> 'l rendered" where
  "renderEmbed loadingComponent u isLoading oembedData =
     (case (u, oembedData) of
        (Some u', Some d) \<Rightarrow>
          if u' = [] \<or> isLoading \<or> \<not> truthy d then LoadingComponent loadingComponent
          else if member_of d ''type'' = Some (JStr ''photo'') then renderPhoto d
          else if member_of d ''type'' = Some (JStr ''video'') then renderVideo d
          else if member_of d ''type'' = Some (JStr ''link'') then renderLink d u'
          else if member_of d ''type'' = Some (JStr ''rich'') then renderRich d
          else LoadingComponent loadingComponent
      | _ \<Rightarrow> LoadingComponent loadingComponent)"

section \<open>\<open>OEmbedPlugin\<close>\<close>

text \<open>
  Modelled from the spec: the host's registry of node types and command listeners
  (\<open>LexicalEditor\<close> of package \<open>lexical\<close>, not among the sources). \<open>hasNodes\<close> tells whether
  every given node type is registered; \<open>registerCommand\<close> adds a listener for a command at
  a priority. \<open>INSERT_OEMBED_COMMAND\<close> and \<open>COMMAND_PRIORITY_EDITOR\<close> are tokens.
\<close>

datatype LexicalCommand = INSERT_OEMBED_COMMAND | OTHER_COMMAND nat

datatype CommandPriority = COMMAND_PRIORITY_EDITOR | OTHER_PRIORITY nat

datatype error = Error string

record 'c LexicalEditor =
  registeredNodes :: "string list"
  commandListeners :: "(LexicalCommand \<times> 'c \<times> CommandPriority) list"

definition hasNodes :: "'c LexicalEditor \<Rightarrow> string list \<Rightarrow> bool" where
  "hasNodes editor klasses = list_all (\<lambda>t. t \<in> set (registeredNodes editor)) klasses"

definition registerCommand ::
    "LexicalCommand \<Rightarrow> 'c \<Rightarrow> CommandPriority \<Rightarrow> 'c LexicalEditor \<Rightarrow> 'c LexicalEditor" where
  "registerCommand command listener prio editor =
     editor\<lparr>commandListeners := commandListeners editor @ [(command, listener, prio)]\<rparr>"

text \<open>
  The listener \<open>(payload) => { const oembedNode = $createOEmbedNode(payload);
  $insertBlockNode(oembedNode); return true; }\<close>. \<open>$insertBlockNode\<close> of \<open>@lexical/utils\<close>
  is not among the sources: it is the parameter \<open>insertBlockNode\<close>, any change of the host
  state that depends on the node it is given.
\<close>

definition insertOEmbed ::
    "('f OEmbedNode \<Rightarrow> 'd HostState \<Rightarrow> 'd HostState) \<Rightarrow> string \<Rightarrow> 'd HostState
      \<Rightarrow> bool \<times> 'd HostState" where
  "insertOEmbed insertBlockNode payload h =
     (let (oembedNode, h1) = createOEmbedNode payload h;
          h2 = insertBlockNode oembedNode h1
      in (True, h2))"

text \<open>
  The effect of \<open>OEmbedPlugin\<close>: \<open>if (!editor.hasNodes([OEmbedNode])) { throw new Error(
  'OEmbedPlugin: OEmbedNode not registered on editor'); } return editor.registerCommand(
  INSERT_OEMBED_COMMAND, listener, COMMAND_PRIORITY_EDITOR);\<close>. A throw is \<open>Inl\<close>.
\<close>

definition OEmbedPlugin ::
    "('f OEmbedNode \<Rightarrow> 'd HostState \<Rightarrow> 'd HostState)
      \<Rightarrow> (string \<Rightarrow> 'd HostState \<Rightarrow> bool \<times> 'd HostState) LexicalEditor
      \<Rightarrow> error + (string \<Rightarrow> 'd HostState \<Rightarrow> bool \<times> 'd HostState) LexicalEditor" where
  "OEmbedPlugin insertBlockNode editor =
     (if \<not> hasNodes editor [getType] then
        Inl (Error ''OEmbedPlugin: OEmbedNode not registered on editor'')
      else
        Inr (registerCommand INSERT_OEMBED_COMMAND (insertOEmbed insertBlockNode)
               COMMAND_PRIORITY_EDITOR editor))"

section \<open>The specification's reading of \<open>importSerialized\<close>\<close>

text \<open>
  The specification says that \<open>importSerialized\<close> "must tolerate only version 1" and
  "applies the persisted format after construction". Read as a function, that is: reject
  (\<open>None\<close>) every other version, and otherwise build the node from the persisted url and
  set the persisted format. It is compared with \<open>importJSON\<close> below.
\<close>

definition importSerialized_spec ::
    "'f SerializedOEmbedNode \<Rightarrow> 'd HostState \<Rightarrow> ('f OEmbedNode \<times> 'd HostState) option" where
  "importSerialized_spec s h =
     (if version s = 1 then
        Some (let (n, h') = createOEmbedNode (url s) h in (setFormat (format s) n, h'))
      else None)"

section \<open>Properties\<close>

lemma createOEmbedNode_eq:
  "createOEmbedNode u h =
     (\<lparr>node_format = None, node_key = keyCounter h, node_url = u\<rparr>,
      h\<lparr>keyCounter := keyCounter h + 1\<rparr>)"
  by (simp add: createOEmbedNode_def OEmbedNode_new_def setNodeKey_def)

lemma importJSON_eq:
  "importJSON s h =
     (\<lparr>node_format = format s, node_key = keyCounter h, node_url = url s\<rparr>,
      h\<lparr>keyCounter := keyCounter h + 1\<rparr>)"
  by (simp add: importJSON_def createOEmbedNode_eq setFormat_def)

lemma exportJSON_eq:
  "exportJSON n = \<lparr>format = node_format n, type = ''oembed'', url = node_url n, version = 1\<rparr>"
  by (simp add: exportJSON_def DecoratorBlockNode_exportJSON_def getUrl_def
      SerializedDecoratorBlockNode.defs SerializedOEmbedNode.defs)

text \<open>
  C9. For every node \<open>n\<close>, the exported object has \<open>type\<close> \<open>''oembed''\<close>, \<open>version\<close> 1,
  \<open>url\<close> equal to \<open>getUrl n\<close>, and its base part is the whole object the base class
  exports, whose \<open>format\<close> is the node's format.
\<close>

theorem exportJSON_fields:
  "type (exportJSON n) = ''oembed'' \<and>
   version (exportJSON n) = 1 \<and>
   url (exportJSON n) = getUrl n \<and>
   SerializedDecoratorBlockNode.truncate (exportJSON n) = DecoratorBlockNode_exportJSON n \<and>
   format (exportJSON n) = node_format n"
  by (simp add: exportJSON_eq getUrl_def DecoratorBlockNode_exportJSON_def
      SerializedDecoratorBlockNode.defs)

text \<open>
  C1. For every url \<open>u\<close> and format \<open>f\<close>: export the node made by \<open>createOEmbedNode u\<close>
  with \<open>f\<close> set, import the result (in any host state \<open>h'\<close>) and export again; the second
  export is the first one, field for field. The imported node is the original one except
  for its key, which is the one the host hands out at import.
\<close>

theorem exportJSON_importJSON_roundtrip:
  "exportJSON (fst (importJSON (exportJSON (setFormat f (fst (createOEmbedNode u h)))) h'))
     = exportJSON (setFormat f (fst (createOEmbedNode u h))) \<and>
   fst (importJSON (exportJSON (setFormat f (fst (createOEmbedNode u h)))) h')
     = (setFormat f (fst (createOEmbedNode u h)))\<lparr>node_key := keyCounter h'\<rparr>"
  by (simp add: importJSON_eq exportJSON_eq createOEmbedNode_eq setFormat_def)

text \<open>
  C5, as stated, fails: \<open>importJSON\<close> has no check of \<open>version\<close>. A persisted object with
  version 2, which the specification's reading rejects, is imported like any other.
\<close>

theorem importJSON_version_counterexample:
  "importSerialized_spec
     \<lparr>format = Some (), type = ''oembed'', url = ''https://example.com/x'', version = 2\<rparr>
     \<lparr>keyCounter = 7, document = ()\<rparr> = None \<and>
   importJSON
     \<lparr>format = Some (), type = ''oembed'', url = ''https://example.com/x'', version = 2\<rparr>
     \<lparr>keyCounter = 7, document = ()\<rparr>
   = (\<lparr>node_format = Some (), node_key = 7, node_url = ''https://example.com/x''\<rparr>,
      \<lparr>keyCounter = 8, document = ()\<rparr>)"
  by (simp add: importSerialized_spec_def importJSON_eq)

text \<open>
  C5, amended. \<open>importJSON\<close> accepts every persisted object, whatever its \<open>version\<close> (and
  \<open>type\<close>): it builds a node with the persisted url, then sets the persisted format, and
  the result does not depend on the \<open>version\<close> field.
\<close>

theorem importJSON_any_version:
  "importJSON s h =
     (setFormat (format s) (fst (createOEmbedNode (url s) h)), snd (createOEmbedNode (url s) h)) \<and>
   getUrl (fst (importJSON s h)) = url s \<and>
   node_format (fst (importJSON s h)) = format s \<and>
   importJSON (s\<lparr>version := v\<rparr>) h = importJSON s h"
  by (simp add: importJSON_eq createOEmbedNode_eq setFormat_def getUrl_def)

text \<open>
  C6, as stated, fails: the text content contains the node's url, so two nodes created
  with different urls have different text contents.
\<close>

theorem getTextContent_counterexample:
  "getTextContent (fst (createOEmbedNode ''a'' \<lparr>keyCounter = 0, document = ()\<rparr>) :: unit OEmbedNode)
     \<noteq> getTextContent (fst (createOEmbedNode ''b'' \<lparr>keyCounter = 0, document = ()\<rparr>) :: unit OEmbedNode)"
  by (simp add: getTextContent_def createOEmbedNode_eq)

text \<open>
  C6, amended. The text content is the fixed Twitter-status prefix followed by the node's
  url: it does not depend on the format or the key, and two nodes have the same text
  content exactly when they have the same url.
\<close>

theorem getTextContent_prefix_url:
  "getTextContent n = ''https://twitter.com/i/web/status/'' @ getUrl n \<and>
   (getTextContent n1 = getTextContent n2) = (getUrl n1 = getUrl n2)"
  by (simp add: getTextContent_def getUrl_def)

subsection \<open>Markup import and export\<close>

lemma exportDOM_eq:
  "element (exportDOM n) =
     \<lparr>localName = ''div'', attributes = [(''data-lexical-oembed-url'', node_url n)]\<rparr>"
  by (simp add: exportDOM_def createElement_def setAttribute_def)

lemma importFromMarkup_div:
  "localName el = ''div'' \<Longrightarrow>
   importFromMarkup el h =
     (case getAttribute el ''data-lexical-oembed-url'' of
        None \<Rightarrow> (None, h)
      | Some u \<Rightarrow> convertOEmbedElement el h)"
  by (simp add: importFromMarkup_def importDOM_def importDOM_div_def hasAttribute_def
      getAttribute_def split: option.splits)

lemma importFromMarkup_exportDOM:
  "importFromMarkup (element (exportDOM n)) h =
     (if node_url n \<noteq> [] then
        (Some \<lparr>node = \<lparr>node_format = None, node_key = keyCounter h, node_url = node_url n\<rparr>\<rparr>,
         h\<lparr>keyCounter := keyCounter h + 1\<rparr>)
      else (None, h))"
  by (simp add: importFromMarkup_div exportDOM_eq getAttribute_def convertOEmbedElement_def
      createOEmbedNode_eq)

text \<open>
  C2, as stated, fails: the element exported for a node whose url is the empty string is
  not recognized when it is imported.
\<close>

theorem importFromMarkup_exportDOM_counterexample:
  "fst (importFromMarkup
          (element (exportDOM \<lparr>node_format = Some (), node_key = 3, node_url = []\<rparr>))
          \<lparr>keyCounter = 4, document = ()\<rparr>)
     = (None :: unit DOMConversionOutput option)"
  by (simp add: importFromMarkup_exportDOM)

text \<open>
  C2, amended. For every node \<open>n\<close> whose url is not the empty string, importing the
  element that \<open>exportDOM n\<close> produces succeeds and yields a node with the url of \<open>n\<close>.
\<close>

theorem importFromMarkup_exportDOM_url:
  assumes "getUrl n \<noteq> []"
  shows "\<exists>out. fst (importFromMarkup (element (exportDOM n)) h) = Some out \<and>
           getUrl (node out) = getUrl n"
  using assms by (simp add: importFromMarkup_exportDOM getUrl_def)

theorem importFromMarkup_exportDOM_url_witness:
  "\<exists>out :: unit DOMConversionOutput.
     fst (importFromMarkup
            (element (exportDOM
               \<lparr>node_format = Some (), node_key = 3, node_url = ''https://example.com/x''\<rparr>))
            \<lparr>keyCounter = 4, document = ()\<rparr>) = Some out \<and>
     getUrl (node out)
       = getUrl \<lparr>node_format = Some (), node_key = 3, node_url = ''https://example.com/x''\<rparr>"
proof -
  have nonempty:
    "getUrl \<lparr>node_format = Some (), node_key = 3, node_url = ''https://example.com/x''\<rparr> \<noteq> []"
    by (simp add: getUrl_def)
  show ?thesis
    by (rule importFromMarkup_exportDOM_url [OF nonempty])
qed

text \<open>
  C8. An element that does not carry the attribute \<open>data-lexical-oembed-url\<close> is not
  recognized: the import returns \<open>null\<close>, builds no node and leaves the host as it was.
\<close>

theorem importFromMarkup_without_marker:
  assumes "\<not> hasAttribute el ''data-lexical-oembed-url''"
  shows "importFromMarkup el h = (None, h)"
proof (cases "localName el = ''div''")
  case True
  with assms show ?thesis
    by (simp add: importFromMarkup_div hasAttribute_def getAttribute_def)
next
  case False
  then show ?thesis
    by (simp add: importFromMarkup_def importDOM_def)
qed

theorem importFromMarkup_without_marker_witness:
  "importFromMarkup \<lparr>localName = ''div'', attributes = [(''class'', ''embed'')]\<rparr>
     \<lparr>keyCounter = 4, document = ()\<rparr>
   = (None :: unit DOMConversionOutput option, \<lparr>keyCounter = 4, document = ()\<rparr>)"
proof -
  have unmarked:
    "\<not> hasAttribute \<lparr>localName = ''div'', attributes = [(''class'', ''embed'')]\<rparr>
         ''data-lexical-oembed-url''"
    by (simp add: hasAttribute_def)
  show ?thesis
    by (rule importFromMarkup_without_marker [OF unmarked])
qed

text \<open>
  C10. On an element whose attribute \<open>data-lexical-oembed-url\<close> is present and empty, the
  presence check of \<open>importDOM\<close> accepts the element (it returns the conversion, with
  priority 2) but \<open>convertOEmbedElement\<close> returns \<open>null\<close>. So the element exported for a
  node created with the empty url is not recognized when it is imported.
\<close>

theorem empty_marker_not_converted:
  "(getAttribute el ''data-lexical-oembed-url'' = Some [] \<longrightarrow>
      hasAttribute el ''data-lexical-oembed-url'' \<and>
      (importDOM_div el :: ('f, 'd) DOMConversion option)
        = Some \<lparr>conversion = convertOEmbedElement, priority = 2\<rparr> \<and>
      (convertOEmbedElement el h :: 'f DOMConversionOutput option \<times> 'd HostState) = (None, h)) \<and>
   (importFromMarkup (element (exportDOM (fst (createOEmbedNode [] h1) :: 'g OEmbedNode))) h
      :: 'f DOMConversionOutput option \<times> 'd HostState) = (None, h)"
  by (simp add: importFromMarkup_exportDOM createOEmbedNode_eq importDOM_div_def
      hasAttribute_def getAttribute_def convertOEmbedElement_def)

theorem empty_marker_not_converted_witness:
  "hasAttribute \<lparr>localName = ''div'', attributes = [(''data-lexical-oembed-url'', [])]\<rparr>
     ''data-lexical-oembed-url'' \<and>
   (importDOM_div \<lparr>localName = ''div'', attributes = [(''data-lexical-oembed-url'', [])]\<rparr>
      :: (unit, unit) DOMConversion option)
     = Some \<lparr>conversion = convertOEmbedElement, priority = 2\<rparr> \<and>
   (convertOEmbedElement
      \<lparr>localName = ''div'', attributes = [(''data-lexical-oembed-url'', [])]\<rparr>
      \<lparr>keyCounter = 4, document = ()\<rparr> :: unit DOMConversionOutput option \<times> unit HostState)
     = (None, \<lparr>keyCounter = 4, document = ()\<rparr>)"
proof -
  have marked:
    "getAttribute \<lparr>localName = ''div'', attributes = [(''data-lexical-oembed-url'', [])]\<rparr>
       ''data-lexical-oembed-url'' = Some []"
    by (simp add: getAttribute_def)
  from empty_marker_not_converted
    [where el = "\<lparr>localName = ''div'', attributes = [(''data-lexical-oembed-url'', [])]\<rparr>"
       and h = "\<lparr>keyCounter = 4, document = ()\<rparr>" and ?'f = unit and ?'d = unit]
  show ?thesis using marked by blast
qed

subsection \<open>The render dispatch\<close>

text \<open>
  C7. Whenever the url is absent (or empty), the fetch is outstanding, no payload has
  arrived, or the payload's \<open>type\<close> member is none of \<open>photo\<close>, \<open>video\<close>, \<open>link\<close>,
  \<open>rich\<close> (missing included), the dispatch returns the loading component.
\<close>

theorem renderEmbed_loading:
  assumes "u = None \<or> u = Some [] \<or> isLoading \<or> oembedData = None \<or>
           (\<exists>d. oembedData = Some d \<and>
                member_of d ''type'' \<noteq> Some (JStr ''photo'') \<and>
                member_of d ''type'' \<noteq> Some (JStr ''video'') \<and>
                member_of d ''type'' \<noteq> Some (JStr ''link'') \<and>
                member_of d ''type'' \<noteq> Some (JStr ''rich''))"
  shows "renderEmbed loadingComponent u isLoading oembedData = LoadingComponent loadingComponent"
proof (cases u)
  case None
  then show ?thesis by (simp add: renderEmbed_def)
next
  case u: (Some u')
  show ?thesis
  proof (cases oembedData)
    case None
    with u show ?thesis by (simp add: renderEmbed_def)
  next
    case (Some d)
    with u assms show ?thesis by (auto simp add: renderEmbed_def)
  qed
qed

theorem renderEmbed_loading_witness:
  "renderEmbed ''Loading...'' (Some ''https://example.com/x'') False
     (Some (JObj [(''type'', JStr ''audio''), (''title'', JStr ''t'')]))
     = LoadingComponent ''Loading...'' \<and>
   renderEmbed ''Loading...'' (Some ''https://example.com/x'') False
     (Some (JObj [(''title'', JStr ''t'')]))
     = LoadingComponent ''Loading...'' \<and>
   renderEmbed ''Loading...'' None False
     (Some (JObj [(''type'', JStr ''photo'')]))
     = LoadingComponent ''Loading...''"
proof -
  have unknown:
    "Some ''https://example.com/x'' = None \<or> Some ''https://example.com/x'' = Some [] \<or> False \<or>
     Some (JObj [(''type'', JStr ''audio''), (''title'', JStr ''t'')]) = None \<or>
     (\<exists>d. Some (JObj [(''type'', JStr ''audio''), (''title'', JStr ''t'')]) = Some d \<and>
          member_of d ''type'' \<noteq> Some (JStr ''photo'') \<and>
          member_of d ''type'' \<noteq> Some (JStr ''video'') \<and>
          member_of d ''type'' \<noteq> Some (JStr ''link'') \<and>
          member_of d ''type'' \<noteq> Some (JStr ''rich''))"
    by simp
  have missing:
    "Some ''https://example.com/x'' = None \<or> Some ''https://example.com/x'' = Some [] \<or> False \<or>
     Some (JObj [(''title'', JStr ''t'')]) = None \<or>
     (\<exists>d. Some (JObj [(''title'', JStr ''t'')]) = Some d \<and>
          member_of d ''type'' \<noteq> Some (JStr ''photo'') \<and>
          member_of d ''type'' \<noteq> Some (JStr ''video'') \<and>
          member_of d ''type'' \<noteq> Some (JStr ''link'') \<and>
          member_of d ''type'' \<noteq> Some (JStr ''rich''))"
    by simp
  have absent:
    "(None :: string option) = None \<or> (None :: string option) = Some [] \<or> False \<or>
     Some (JObj [(''type'', JStr ''photo'')]) = None \<or>
     (\<exists>d. Some (JObj [(''type'', JStr ''photo'')]) = Some d \<and>
          member_of d ''type'' \<noteq> Some (JStr ''photo'') \<and>
          member_of d ''type'' \<noteq> Some (JStr ''video'') \<and>
          member_of d ''type'' \<noteq> Some (JStr ''link'') \<and>
          member_of d ''type'' \<noteq> Some (JStr ''rich''))"
    by simp
  show ?thesis
    by (intro conjI renderEmbed_loading [OF unknown] renderEmbed_loading [OF missing]
        renderEmbed_loading [OF absent])
qed

subsection \<open>The plugin\<close>

text \<open>
  C3. For every payload, the listener builds one node, whose url is the payload and whose
  key is the next one of the host (which hands out exactly one key), gives this node to the
  block-insertion routine, and returns \<open>true\<close>. With the routine that appends what it is
  given to the document, the document grows by exactly this node.
\<close>

theorem insertOEmbed_handled:
  "fst (insertOEmbed insertBlockNode payload h) = True \<and>
   snd (insertOEmbed insertBlockNode payload h)
     = insertBlockNode (fst (createOEmbedNode payload h)) (snd (createOEmbedNode payload h)) \<and>
   getUrl (fst (createOEmbedNode payload h) :: 'f OEmbedNode) = payload \<and>
   node_key (fst (createOEmbedNode payload h) :: 'f OEmbedNode) = keyCounter h \<and>
   keyCounter (snd (createOEmbedNode payload h :: 'f OEmbedNode \<times> 'd HostState))
     = keyCounter h + 1 \<and>
   document (snd (insertOEmbed (\<lambda>n s. s\<lparr>document := document s @ [n]\<rparr>) payload h'))
     = document h' @ [\<lparr>node_format = None, node_key = keyCounter h', node_url = payload\<rparr>]"
  by (simp add: insertOEmbed_def createOEmbedNode_eq getUrl_def)

text \<open>
  C4. When the node type \<open>oembed\<close> is not registered with the editor, the effect of the
  plugin throws and leaves no editor with the listener in it; when the type is registered,
  it does not throw, and the editor gets the listener for \<open>INSERT_OEMBED_COMMAND\<close>.
\<close>

theorem OEmbedPlugin_registration:
  "(getType \<notin> set (registeredNodes editor) \<longrightarrow>
      OEmbedPlugin insertBlockNode editor
        = Inl (Error ''OEmbedPlugin: OEmbedNode not registered on editor'')) \<and>
   (getType \<in> set (registeredNodes editor) \<longrightarrow>
      OEmbedPlugin insertBlockNode editor
        = Inr (editor\<lparr>commandListeners := commandListeners editor @
                 [(INSERT_OEMBED_COMMAND, insertOEmbed insertBlockNode,
                   COMMAND_PRIORITY_EDITOR)]\<rparr>))"
  by (simp add: OEmbedPlugin_def hasNodes_def registerCommand_def)

theorem OEmbedPlugin_registration_witness:
  "OEmbedPlugin (\<lambda>(n :: unit OEmbedNode) (s :: unit HostState). s)
     \<lparr>registeredNodes = [''paragraph''], commandListeners = []\<rparr>
     = Inl (Error ''OEmbedPlugin: OEmbedNode not registered on editor'') \<and>
   OEmbedPlugin (\<lambda>(n :: unit OEmbedNode) (s :: unit HostState). s)
     \<lparr>registeredNodes = [''paragraph'', ''oembed''], commandListeners = []\<rparr>
     = Inr \<lparr>registeredNodes = [''paragraph'', ''oembed''],
           commandListeners =
             [(INSERT_OEMBED_COMMAND,
               insertOEmbed (\<lambda>(n :: unit OEmbedNode) (s :: unit HostState). s),
               COMMAND_PRIORITY_EDITOR)]\<rparr>"
proof -
  have unregistered:
    "getType \<notin> set (registeredNodes
       (\<lparr>registeredNodes = [''paragraph''], commandListeners = []\<rparr>
          :: (string \<Rightarrow> unit HostState \<Rightarrow> bool \<times> unit HostState) LexicalEditor))"
    by (simp add: getType_def)
  have registered:
    "getType \<in> set (registeredNodes
       (\<lparr>registeredNodes = [''paragraph'', ''oembed''], commandListeners = []\<rparr>
          :: (string \<Rightarrow> unit HostState \<Rightarrow> bool \<times> unit HostState) LexicalEditor))"
    by (simp add: getType_def)
  from OEmbedPlugin_registration
    [of "\<lparr>registeredNodes = [''paragraph''], commandListeners = []\<rparr>"
        "\<lambda>(n :: unit OEmbedNode) (s :: unit HostState). s"]
    unregistered
  have "OEmbedPlugin (\<lambda>(n :: unit OEmbedNode) (s :: unit HostState). s)
          \<lparr>registeredNodes = [''paragraph''], commandListeners = []\<rparr>
          = Inl (Error ''OEmbedPlugin: OEmbedNode not registered on editor'')"
    by blast
  moreover
  from OEmbedPlugin_registration
    [of "\<lparr>registeredNodes = [''paragraph'', ''oembed''], commandListeners = []\<rparr>"
        "\<lambda>(n :: unit OEmbedNode) (s :: unit HostState). s"]
    registered
  have "OEmbedPlugin (\<lambda>(n :: unit OEmbedNode) (s :: unit HostState). s)
          \<lparr>registeredNodes = [''paragraph'', ''oembed''], commandListeners = []\<rparr>
          = Inr \<lparr>registeredNodes = [''paragraph'', ''oembed''],
                commandListeners =
                  [(INSERT_OEMBED_COMMAND,
                    insertOEmbed (\<lambda>(n :: unit OEmbedNode) (s :: unit HostState). s),
                    COMMAND_PRIORITY_EDITOR)]\<rparr>"
    by (simp add: getType_def)
  ultimately show ?thesis by (rule conjI)
qed

end
